theory Spec2Isabelle
  imports Main
begin

section \<open>Python values and string helpers used by container.py\<close>

text \<open>
  A Python value that is either \<open>None\<close> or a \<open>str\<close> is a \<open>string option\<close>.
  Its truth value is the one Python gives it: \<open>None\<close> and the empty string are false.
\<close>

definition truthy :: "string option \<Rightarrow> bool" where
  "truthy v = (case v of None \<Rightarrow> False | Some s \<Rightarrow> s \<noteq> [])"

text \<open>Python's \<open>a or b\<close> on such values.\<close>

definition py_or :: "string option \<Rightarrow> string option \<Rightarrow> string option" where
  "py_or a b = (if truthy a then a else b)"

text \<open>\<open>str.lower()\<close> on a byte string: the ASCII capitals move down by 32.\<close>

definition lower_char :: "char \<Rightarrow> char" where
  "lower_char c =
     (if (65::nat) \<le> of_char c \<and> of_char c \<le> (90::nat)
      then char_of (of_char c + (32::nat)) else c)"

definition lower :: "string \<Rightarrow> string" where
  "lower s = map lower_char s"

text \<open>\<open>str(ttl)\<close> for an integer: decimal digits, with a minus sign when negative.\<close>

definition digit_char :: "nat \<Rightarrow> char" where
  "digit_char d = char_of (48 + d)"

function str_nat :: "nat \<Rightarrow> string" where
  "str_nat n = (if n < 10 then [digit_char n] else str_nat (n div 10) @ [digit_char (n mod 10)])"
  by pat_completeness auto
termination
  by (relation "measure (\<lambda>n. n)") auto

declare str_nat.simps [simp del]

definition str_int :: "int \<Rightarrow> string" where
  "str_int i = (if i < 0 then CHR ''-'' # str_nat (nat (- i)) else str_nat (nat i))"

section \<open>Errors\<close>

text \<open>
  The exceptions of errors.py that container.py raises, and the built-in exceptions its
  code can run into (\<open>int()\<close> on a malformed header, an attribute missing from the
  object passed as connection, a list index out of range).
\<close>

datatype error =
    InvalidContainerName "string option"
  | InvalidObjectName "string option"
  | CDNNotEnabled
  | ContainerNotPublic
  | ResponseError int string
  | ValueError string
  | AttributeError string
  | IndexError

text \<open>
  \<open>int(s)\<close> on a byte string: surrounding whitespace is stripped, one sign is allowed,
  and at least one decimal digit must follow; anything else raises ValueError.
\<close>

definition is_space :: "char \<Rightarrow> bool" where
  "is_space c = (of_char c \<in> set [32, 9, 10, 11, 12, 13 :: nat])"

definition strip :: "string \<Rightarrow> string" where
  "strip s = rev (dropWhile is_space (rev (dropWhile is_space s)))"

definition is_digit :: "char \<Rightarrow> bool" where
  "is_digit c = ((48::nat) \<le> of_char c \<and> of_char c \<le> (57::nat))"

fun digits_value :: "nat \<Rightarrow> string \<Rightarrow> nat" where
  "digits_value acc [] = acc"
| "digits_value acc (c # cs) = digits_value (10 * acc + (of_char c - 48)) cs"

definition parse_digits :: "string \<Rightarrow> nat option" where
  "parse_digits ds = (if ds \<noteq> [] \<and> list_all is_digit ds then Some (digits_value 0 ds) else None)"

definition py_int :: "string \<Rightarrow> error + int" where
  "py_int s =
     (let t = strip s;
          r = (case t of
                 [] \<Rightarrow> None
               | c # cs \<Rightarrow>
                   if c = CHR ''-'' then map_option (\<lambda>n. - int n) (parse_digits cs)
                   else if c = CHR ''+'' then map_option int (parse_digits cs)
                   else map_option int (parse_digits t))
      in case r of None \<Rightarrow> Inl (ValueError s) | Some i \<Rightarrow> Inr i)"

text \<open>
  \<open>str.splitlines()\<close> on a byte string: lines end at LF, CR or CR LF, the line ends are
  dropped, and no empty last line is produced.
\<close>

fun splitlines_from :: "string \<Rightarrow> string \<Rightarrow> string list" where
  "splitlines_from acc [] = (if acc = [] then [] else [rev acc])"
| "splitlines_from acc (c # cs) =
     (if c = CHR 0x0D then
        (case cs of
           [] \<Rightarrow> [rev acc]
         | d # ds \<Rightarrow> if d = CHR 0x0A then rev acc # splitlines_from [] ds
                     else rev acc # splitlines_from [] (d # ds))
      else if c = CHR 0x0A then rev acc # splitlines_from [] cs
      else splitlines_from (c # acc) cs)"

definition splitlines :: "string \<Rightarrow> string list" where
  "splitlines s = splitlines_from [] s"

text \<open>Python list indexing and slicing with integer bounds.\<close>

definition py_index :: "'a list \<Rightarrow> int \<Rightarrow> error + 'a" where
  "py_index xs i =
     (let n = int (length xs); j = (if i < 0 then i + n else i)
      in if 0 \<le> j \<and> j < n then Inr (xs ! nat j) else Inl IndexError)"

definition clamp_index :: "nat \<Rightarrow> int \<Rightarrow> nat" where
  "clamp_index n i =
     (if i < 0 then (if i + int n < 0 then 0 else nat (i + int n))
      else if int n < i then n else nat i)"

definition py_slice :: "'a list \<Rightarrow> int \<Rightarrow> int \<Rightarrow> 'a list" where
  "py_slice xs i j =
     (let lo = clamp_index (length xs) i; hi = clamp_index (length xs) j
      in take (hi - lo) (drop lo xs))"

section \<open>The connection collaborator\<close>

text \<open>
  Modelled from the spec: the Connection class and its HTTP responses are not part of
  container.py. The spec's section 6 gives the interface: \<open>cdn_enabled\<close> is a boolean
  flag, \<open>make_request\<close> and \<open>cdn_request\<close> issue one request each and return a response
  with \<open>status\<close>, \<open>reason\<close>, \<open>getheaders()\<close> and \<open>read()\<close>. What the remote service
  answers is a parameter of the model (\<open>transport\<close>): it may depend on everything that
  happened on the connection so far. The world is the trace of what the code did to the
  connection: the requests it sent and the bodies it read, oldest first.
\<close>

datatype service = Storage | CDN

record request =
  service :: service
  meth :: string
  path :: "string option list"
  hdrs :: "string \<rightharpoonup> string"
  parms :: "string \<rightharpoonup> string"

record response =
  status :: int
  reason :: string
  headers :: "(string \<times> string) list"
  body :: string

datatype event = Sent request | ReadBody

type_synonym world = "event list"

record connection =
  cdn_enabled :: bool
  transport :: "world \<Rightarrow> request \<Rightarrow> response"

definition make_request ::
  "connection \<Rightarrow> string \<Rightarrow> string option list \<Rightarrow> (string \<rightharpoonup> string) \<Rightarrow> world
     \<Rightarrow> response \<times> world" where
  "make_request k m p ps w =
     (let rq = \<lparr>service = Storage, meth = m, path = p, hdrs = Map.empty, parms = ps\<rparr>
      in (transport k w rq, w @ [Sent rq]))"

definition cdn_request ::
  "connection \<Rightarrow> string \<Rightarrow> string option list \<Rightarrow> (string \<rightharpoonup> string) \<Rightarrow> world
     \<Rightarrow> response \<times> world" where
  "cdn_request k m p hs w =
     (let rq = \<lparr>service = CDN, meth = m, path = p, hdrs = hs, parms = Map.empty\<rparr>
      in (transport k w rq, w @ [Sent rq]))"

text \<open>\<open>response.read()\<close> returns the body and leaves its mark in the trace.\<close>

definition read :: "response \<Rightarrow> world \<Rightarrow> string \<times> world" where
  "read r w = (body r, w @ [ReadBody])"

text \<open>
  The requests of a trace, and the number of responses whose body has not been read: a
  trace is drained when that number is zero.
\<close>

fun requests :: "world \<Rightarrow> request list" where
  "requests [] = []"
| "requests (Sent rq # es) = rq # requests es"
| "requests (ReadBody # es) = requests es"

fun unread_from :: "nat \<Rightarrow> world \<Rightarrow> nat" where
  "unread_from n [] = n"
| "unread_from n (Sent rq # es) = unread_from (Suc n) es"
| "unread_from n (ReadBody # es) = unread_from (n - 1) es"

definition drained :: "world \<Rightarrow> bool" where
  "drained w = (unread_from 0 w = 0)"

section \<open>Container\<close>

record container =
  name :: "string option"
  conn :: connection
  object_count :: "int option"
  size_used :: "int option"
  cdn_uri :: "string option"
  cdn_ttl :: "int option"
  cdn_agent_acl :: "string option"
  cdn_referer_acl :: "string option"

text \<open>
  A method runs on the object and the world and returns its result or the exception it
  raised, with the object and the world as it left them.
\<close>

type_synonym 'a outcome = "(error + 'a) \<times> container \<times> world"

text \<open>The setter behind the \<open>name\<close> property (\<open>__set_name\<close>): slashes make for invalid names.\<close>

definition set_name :: "string option \<Rightarrow> error + string option" where
  "set_name nm =
     (case nm of
        Some s \<Rightarrow> if CHR ''/'' \<in> set s then Inl (InvalidContainerName nm) else Inr nm
      | None \<Rightarrow> Inr nm)"

text \<open>
  Modelled from the spec: the decorator \<open>requires_name\<close> of utils.py is not part of
  container.py. The spec says of the methods it decorates that they require a non-empty
  name, and that the naming error is raised before any request is issued: the decorated
  method runs only when the object's name is set and not empty.
\<close>

definition requires_name ::
  "(string option \<Rightarrow> error) \<Rightarrow> (container \<Rightarrow> world \<Rightarrow> 'a outcome)
     \<Rightarrow> container \<Rightarrow> world \<Rightarrow> 'a outcome" where
  "requires_name exc_class f self w =
     (if truthy (name self) then f self w else (Inl (exc_class (name self)), self, w))"

subsection \<open>Fetching the CDN data\<close>

text \<open>
  The loop over the response headers of \<open>_fetch_cdn_data\<close>. The four tests run in the
  source's order on every header; \<open>int()\<close> may raise in the middle, and what was
  assigned before stays assigned.
\<close>

fun fetch_headers :: "container \<Rightarrow> (string \<times> string) list \<Rightarrow> (error + unit) \<times> container" where
  "fetch_headers self [] = (Inr (), self)"
| "fetch_headers self (hdr # rest) =
     (let k = lower (fst hdr);
          s1 = (if k = ''x-cdn-uri'' then self\<lparr>cdn_uri := Some (snd hdr)\<rparr> else self)
      in case (if k = ''x-ttl''
               then (case py_int (snd hdr) of
                       Inl e \<Rightarrow> Inl e
                     | Inr t \<Rightarrow> Inr (s1\<lparr>cdn_ttl := Some t\<rparr>))
               else Inr s1) of
           Inl e \<Rightarrow> (Inl e, s1)
         | Inr s2 \<Rightarrow>
             (let s3 = (if k = ''x-user-agent-acl''
                        then s2\<lparr>cdn_agent_acl := Some (snd hdr)\<rparr> else s2);
                  s4 = (if k = ''x-referrer-acl''
                        then s3\<lparr>cdn_referer_acl := Some (snd hdr)\<rparr> else s3)
              in fetch_headers s4 rest))"

definition fetch_cdn_data_body :: "container \<Rightarrow> world \<Rightarrow> unit outcome" where
  "fetch_cdn_data_body self w =
     (let (response, w1) = cdn_request (conn self) ''HEAD'' [name self] Map.empty w
      in if 200 \<le> status response \<and> status response < 300
         then (case fetch_headers self (headers response) of (r, self') \<Rightarrow> (r, self', w1))
         else (Inr (), self, w1))"

definition fetch_cdn_data :: "container \<Rightarrow> world \<Rightarrow> unit outcome" where
  "fetch_cdn_data = requires_name InvalidContainerName fetch_cdn_data_body"

subsection \<open>The constructor\<close>

text \<open>
  The constructor takes whatever object it is given as connection: \<open>None\<close> (the default),
  a connection, or, from \<open>ContainerResults.__getslice__\<close>, a list of names. Only a
  connection has the attribute \<open>cdn_enabled\<close> that line 68 reads.
\<close>

datatype conn_val = NoneVal | ConnObj connection | ListVal "string option list"

definition Container_init ::
  "conn_val \<Rightarrow> string option \<Rightarrow> int option \<Rightarrow> int option \<Rightarrow> world
     \<Rightarrow> (error + container) \<times> world" where
  "Container_init connection nm cnt sz w =
     (case set_name nm of
        Inl e \<Rightarrow> (Inl e, w)
      | Inr n \<Rightarrow>
          (case connection of
             ConnObj k \<Rightarrow>
               (let self = \<lparr>name = n, conn = k, object_count = cnt, size_used = sz,
                            cdn_uri = None, cdn_ttl = None,
                            cdn_agent_acl = None, cdn_referer_acl = None\<rparr>
                in if cdn_enabled k
                   then (case fetch_cdn_data self w of
                           (Inl e, self', w1) \<Rightarrow> (Inl e, w1)
                         | (Inr u, self', w1) \<Rightarrow> (Inr self', w1))
                   else (Inr self, w))
           | NoneVal \<Rightarrow> (Inl (AttributeError ''cdn_enabled''), w)
           | ListVal xs \<Rightarrow> (Inl (AttributeError ''cdn_enabled''), w)))"

subsection \<open>Publishing to the CDN\<close>

text \<open>\<open>if v: hdrs[k] = v\<close>\<close>

definition set_if_truthy ::
  "string \<Rightarrow> string option \<Rightarrow> (string \<rightharpoonup> string) \<Rightarrow> (string \<rightharpoonup> string)" where
  "set_if_truthy k v h =
     (case v of None \<Rightarrow> h | Some s \<Rightarrow> if s \<noteq> [] then h(k \<mapsto> s) else h)"

text \<open>
  The loop of \<open>make_public\<close> over the response headers: only \<open>x-cdn-uri\<close> is read.
  The default of \<open>ttl\<close>, \<open>default_cdn_ttl\<close> of consts.py, is not part of container.py:
  \<open>make_public\<close> takes its three arguments explicitly, None standing for an ACL argument
  left out.
\<close>

fun read_cdn_uri :: "container \<Rightarrow> (string \<times> string) list \<Rightarrow> container" where
  "read_cdn_uri self [] = self"
| "read_cdn_uri self (hdr # rest) =
     read_cdn_uri
       (if lower (fst hdr) = ''x-cdn-uri'' then self\<lparr>cdn_uri := Some (snd hdr)\<rparr> else self) rest"

definition make_public_body ::
  "int \<Rightarrow> string option \<Rightarrow> string option \<Rightarrow> container \<Rightarrow> world \<Rightarrow> unit outcome" where
  "make_public_body ttl user_agent_acl referer_acl self w =
     (if \<not> cdn_enabled (conn self) then (Inl CDNNotEnabled, self, w)
      else
        (let (request_method, ua, ra) =
               (if truthy (cdn_uri self)
                then (''POST'', py_or user_agent_acl (cdn_agent_acl self),
                      py_or referer_acl (cdn_referer_acl self))
                else (''PUT'', user_agent_acl, referer_acl));
             h0 = [''X-TTL'' \<mapsto> str_int ttl, ''X-CDN-Enabled'' \<mapsto> ''True''];
             h1 = set_if_truthy ''X-User-Agent-ACL'' ua h0;
             h2 = set_if_truthy ''X-Referrer-ACL'' ra h1;
             (response, w1) = cdn_request (conn self) request_method [name self] h2 w
         in if status response < 200 \<or> 300 \<le> status response
            then (Inl (ResponseError (status response) (reason response)), self, w1)
            else (Inr (),
                  read_cdn_uri
                    (self\<lparr>cdn_ttl := Some ttl, cdn_agent_acl := ua, cdn_referer_acl := ra\<rparr>)
                    (headers response),
                  w1)))"

definition make_public ::
  "int \<Rightarrow> string option \<Rightarrow> string option \<Rightarrow> container \<Rightarrow> world \<Rightarrow> unit outcome" where
  "make_public ttl user_agent_acl referer_acl =
     requires_name InvalidContainerName (make_public_body ttl user_agent_acl referer_acl)"

definition make_private_body :: "container \<Rightarrow> world \<Rightarrow> unit outcome" where
  "make_private_body self w =
     (if \<not> cdn_enabled (conn self) then (Inl CDNNotEnabled, self, w)
      else
        (let (response, w1) =
               cdn_request (conn self) ''POST'' [name self] [''X-CDN-Enabled'' \<mapsto> ''False''] w
         in if status response < 200 \<or> 300 \<le> status response
            then (Inl (ResponseError (status response) (reason response)), self, w1)
            else (Inr (), self, w1)))"

definition make_private :: "container \<Rightarrow> world \<Rightarrow> unit outcome" where
  "make_private = requires_name InvalidContainerName make_private_body"

definition is_public :: "container \<Rightarrow> world \<Rightarrow> bool outcome" where
  "is_public self w =
     (if \<not> cdn_enabled (conn self) then (Inl CDNNotEnabled, self, w)
      else (Inr (cdn_uri self \<noteq> None), self, w))"

definition public_uri_body :: "container \<Rightarrow> world \<Rightarrow> (string option) outcome" where
  "public_uri_body self w =
     (case is_public self w of
        (Inl e, self', w1) \<Rightarrow> (Inl e, self', w1)
      | (Inr b, self', w1) \<Rightarrow>
          if \<not> b then (Inl ContainerNotPublic, self', w1) else (Inr (cdn_uri self'), self', w1))"

definition public_uri :: "container \<Rightarrow> world \<Rightarrow> (string option) outcome" where
  "public_uri = requires_name InvalidContainerName public_uri_body"

subsection \<open>Objects of the container\<close>

text \<open>
  Modelled from the spec: the classes Object and ObjectResults of storage_object.py are not
  part of container.py. Of an Object the code reads the \<open>name\<close> only; an ObjectResults is
  built from the container and the list of names.
\<close>

record storage_object =
  object_name :: "string option"


definition list_objects_body :: "(string \<rightharpoonup> string) \<Rightarrow> container \<Rightarrow> world \<Rightarrow> (string list) outcome" where
  "list_objects_body ps self w =
     (let (response, w1) = make_request (conn self) ''GET'' [name self] ps w
      in if status response < 200 \<or> 299 < status response
         then (let (buff, w2) = read response w1
               in (Inl (ResponseError (status response) (reason response)), self, w2))
         else (let (buff, w2) = read response w1
               in (Inr (splitlines buff), self, w2)))"

definition list_objects :: "(string \<rightharpoonup> string) \<Rightarrow> container \<Rightarrow> world \<Rightarrow> (string list) outcome" where
  "list_objects ps = requires_name InvalidContainerName (list_objects_body ps)"



text \<open>\<open>delete_object\<close> takes a name or an Object.\<close>

datatype object_arg = ByName "string option" | ByObject storage_object

definition delete_object_body :: "object_arg \<Rightarrow> container \<Rightarrow> world \<Rightarrow> unit outcome" where
  "delete_object_body arg self w =
     (let nm = (case arg of ByObject ob \<Rightarrow> object_name ob | ByName n \<Rightarrow> n)
      in if \<not> truthy nm then (Inl (InvalidObjectName nm), self, w)
         else
           (let (response, w1) = make_request (conn self) ''DELETE'' [name self, nm] Map.empty w
            in if status response < 200 \<or> 299 < status response
               then (let (buff, w2) = read response w1
                     in (Inl (ResponseError (status response) (reason response)), self, w2))
               else (let (buff, w2) = read response w1
                     in (Inr (), self, w2))))"

definition delete_object :: "object_arg \<Rightarrow> container \<Rightarrow> world \<Rightarrow> unit outcome" where
  "delete_object arg = requires_name InvalidContainerName (delete_object_body arg)"

section \<open>ContainerResults\<close>

text \<open>
  The fields \<open>_containers\<close> and \<open>conn\<close> of a ContainerResults; the second is named
  \<open>results_conn\<close> here, \<open>conn\<close> being the field of the container.
\<close>

record container_results =
  containers :: "string option list"
  results_conn :: conn_val

text \<open>
  The list comprehension of \<open>__getslice__\<close>: one constructor call per name, in order; the
  first exception ends it.
\<close>

fun construct_each ::
  "conn_val \<Rightarrow> string option list \<Rightarrow> world \<Rightarrow> (error + container list) \<times> world" where
  "construct_each cv [] w = (Inr [], w)"
| "construct_each cv (k # ks) w =
     (case Container_init cv k None None w of
        (Inl e, w1) \<Rightarrow> (Inl e, w1)
      | (Inr c, w1) \<Rightarrow>
          (case construct_each cv ks w1 of
             (Inl e, w2) \<Rightarrow> (Inl e, w2)
           | (Inr cs, w2) \<Rightarrow> (Inr (c # cs), w2)))"

definition results_getitem ::
  "container_results \<Rightarrow> int \<Rightarrow> world \<Rightarrow> (error + container) \<times> world" where
  "results_getitem self key w =
     (case py_index (containers self) key of
        Inl e \<Rightarrow> (Inl e, w)
      | Inr k \<Rightarrow> Container_init (results_conn self) k None None w)"

definition results_getslice ::
  "container_results \<Rightarrow> int \<Rightarrow> int \<Rightarrow> world \<Rightarrow> (error + container list) \<times> world" where
  "results_getslice self i j w =
     construct_each (ListVal (containers self)) (py_slice (containers self) i j) w"

definition results_contains :: "container_results \<Rightarrow> string option \<Rightarrow> bool" where
  "results_contains self item = (item \<in> set (containers self))"

definition results_len :: "container_results \<Rightarrow> nat" where
  "results_len self = length (containers self)"

definition results_count :: "container_results \<Rightarrow> string option \<Rightarrow> nat" where
  "results_count self v = count_list (containers self) v"

section \<open>Example connections and containers\<close>

text \<open>
  A connection whose service answers every request with the same response, a container in a
  given state, and five responses: a creation without headers, a creation that names the
  CDN URI, an answer whose CDN URI header is empty, the same with a user-agent ACL beside
  it, and a failure.
\<close>

definition fixed_conn :: "bool \<Rightarrow> response \<Rightarrow> connection" where
  "fixed_conn en r = \<lparr>cdn_enabled = en, transport = (\<lambda>w rq. r)\<rparr>"

definition stored ::
  "connection \<Rightarrow> string option \<Rightarrow> string option \<Rightarrow> string option \<Rightarrow> string option
     \<Rightarrow> container" where
  "stored k nm uri ua ra =
     \<lparr>name = nm, conn = k, object_count = None, size_used = None,
      cdn_uri = uri, cdn_ttl = None, cdn_agent_acl = ua, cdn_referer_acl = ra\<rparr>"

definition created :: response where
  "created = \<lparr>status = 201, reason = ''Created'', headers = [], body = []\<rparr>"

definition published :: response where
  "published = \<lparr>status = 201, reason = ''Created'',
                 headers = [(''X-CDN-URI'', ''http://cdn.example.com/pics'')], body = []\<rparr>"

definition blank_uri :: response where
  "blank_uri = \<lparr>status = 204, reason = ''No Content'',
                 headers = [(''X-CDN-URI'', [])], body = []\<rparr>"

definition blank_uri_acl :: response where
  "blank_uri_acl = \<lparr>status = 204, reason = ''No Content'',
                     headers = [(''X-CDN-URI'', []), (''X-User-Agent-ACL'', ''Mozilla'')],
                     body = []\<rparr>"

definition not_found :: response where
  "not_found = \<lparr>status = 404, reason = ''Not Found'', headers = [], body = ''gone''\<rparr>"

section \<open>Basic facts\<close>

lemma str_3600: "str_int 3600 = ''3600''"
  by code_simp

lemma lower_cdn_uri: "lower ''X-CDN-URI'' = ''x-cdn-uri''"
  by code_simp

lemma lower_user_agent_acl: "lower ''X-User-Agent-ACL'' = ''x-user-agent-acl''"
  by code_simp

lemma requests_append: "requests (a @ b) = requests a @ requests b"
  by (induction a rule: requests.induct) simp_all

lemma read_cdn_uri_fields:
  "name (read_cdn_uri s hs) = name s \<and> conn (read_cdn_uri s hs) = conn s
   \<and> cdn_ttl (read_cdn_uri s hs) = cdn_ttl s
   \<and> cdn_agent_acl (read_cdn_uri s hs) = cdn_agent_acl s
   \<and> cdn_referer_acl (read_cdn_uri s hs) = cdn_referer_acl s"
  by (induction s hs rule: read_cdn_uri.induct) simp_all

lemma read_cdn_uri_known:
  "(cdn_uri (read_cdn_uri s hs) \<noteq> None) =
     (''x-cdn-uri'' \<in> set (map (\<lambda>h. lower (fst h)) hs) \<or> cdn_uri s \<noteq> None)"
  by (induction s hs rule: read_cdn_uri.induct) auto

lemma fetch_headers_fields:
  "name (snd (fetch_headers s hs)) = name s \<and> conn (snd (fetch_headers s hs)) = conn s"
  by (induction s hs rule: fetch_headers.induct) (auto simp: Let_def split: sum.splits)

lemma fetch_headers_fields_rel:
  "fetch_headers s hs = (r, s') \<Longrightarrow> name s' = name s \<and> conn s' = conn s"
  using fetch_headers_fields [of s hs] by simp

lemma fetch_cdn_data_fields:
  "fetch_cdn_data s w = (r, s', w') \<Longrightarrow> name s' = name s \<and> conn s' = conn s"
  by (auto dest: fetch_headers_fields_rel
      simp: fetch_cdn_data_def requires_name_def fetch_cdn_data_body_def cdn_request_def
      Let_def split: if_splits prod.splits)

lemma fetch_cdn_data_named:
  "fetch_cdn_data s w = (Inr u, s', w') \<Longrightarrow> truthy (name s)"
  by (auto simp: fetch_cdn_data_def requires_name_def split: if_splits)

subsection \<open>What \<open>make_public\<close> does once its guards have passed\<close>

lemma make_public_guards:
  "make_public ttl ua ra self w =
     (if \<not> truthy (name self) then (Inl (InvalidContainerName (name self)), self, w)
      else if \<not> cdn_enabled (conn self) then (Inl CDNNotEnabled, self, w)
      else make_public_body ttl ua ra self w)"
  by (simp add: make_public_def requires_name_def make_public_body_def)

lemma make_public_body_unfold:
  assumes "cdn_enabled (conn self)"
  shows "make_public_body ttl ua ra self w =
    (let ua' = (if truthy (cdn_uri self) then py_or ua (cdn_agent_acl self) else ua);
         ra' = (if truthy (cdn_uri self) then py_or ra (cdn_referer_acl self) else ra);
         rq = \<lparr>service = CDN, meth = (if truthy (cdn_uri self) then ''POST'' else ''PUT''),
               path = [name self],
               hdrs = set_if_truthy ''X-Referrer-ACL'' ra'
                        (set_if_truthy ''X-User-Agent-ACL'' ua'
                           [''X-TTL'' \<mapsto> str_int ttl, ''X-CDN-Enabled'' \<mapsto> ''True'']),
               parms = Map.empty\<rparr>;
         resp = transport (conn self) w rq
     in if status resp < 200 \<or> 300 \<le> status resp
        then (Inl (ResponseError (status resp) (reason resp)), self, w @ [Sent rq])
        else (Inr (),
              read_cdn_uri
                (self\<lparr>cdn_ttl := Some ttl, cdn_agent_acl := ua', cdn_referer_acl := ra'\<rparr>)
                (headers resp),
              w @ [Sent rq]))"
  using assms
  by (simp add: make_public_body_def cdn_request_def Let_def)

lemma make_public_unfold:
  assumes "truthy (name self)" and "cdn_enabled (conn self)"
  shows "make_public ttl ua ra self w =
    (let ua' = (if truthy (cdn_uri self) then py_or ua (cdn_agent_acl self) else ua);
         ra' = (if truthy (cdn_uri self) then py_or ra (cdn_referer_acl self) else ra);
         rq = \<lparr>service = CDN, meth = (if truthy (cdn_uri self) then ''POST'' else ''PUT''),
               path = [name self],
               hdrs = set_if_truthy ''X-Referrer-ACL'' ra'
                        (set_if_truthy ''X-User-Agent-ACL'' ua'
                           [''X-TTL'' \<mapsto> str_int ttl, ''X-CDN-Enabled'' \<mapsto> ''True'']),
               parms = Map.empty\<rparr>;
         resp = transport (conn self) w rq
     in if status resp < 200 \<or> 300 \<le> status resp
        then (Inl (ResponseError (status resp) (reason resp)), self, w @ [Sent rq])
        else (Inr (),
              read_cdn_uri
                (self\<lparr>cdn_ttl := Some ttl, cdn_agent_acl := ua', cdn_referer_acl := ra'\<rparr>)
                (headers resp),
              w @ [Sent rq]))"
  using assms by (simp add: make_public_def requires_name_def make_public_body_unfold)

lemma acl_header_lookup:
  "set_if_truthy ''X-Referrer-ACL'' b (set_if_truthy ''X-User-Agent-ACL'' a
      [''X-TTL'' \<mapsto> t, ''X-CDN-Enabled'' \<mapsto> ''True'']) ''X-User-Agent-ACL''
     = (if truthy a then a else None)"
  "set_if_truthy ''X-Referrer-ACL'' b (set_if_truthy ''X-User-Agent-ACL'' a
      [''X-TTL'' \<mapsto> t, ''X-CDN-Enabled'' \<mapsto> ''True'']) ''X-Referrer-ACL''
     = (if truthy b then b else None)"
  "set_if_truthy ''X-Referrer-ACL'' b (set_if_truthy ''X-User-Agent-ACL'' a
      [''X-TTL'' \<mapsto> t, ''X-CDN-Enabled'' \<mapsto> ''True'']) ''X-TTL'' = Some t"
  "set_if_truthy ''X-Referrer-ACL'' b (set_if_truthy ''X-User-Agent-ACL'' a
      [''X-TTL'' \<mapsto> t, ''X-CDN-Enabled'' \<mapsto> ''True'']) ''X-CDN-Enabled'' = Some ''True''"
  by (simp_all add: set_if_truthy_def truthy_def split: option.splits)

lemma make_public_success:
  assumes "make_public ttl ua ra self w = (Inr u, self', w')"
  shows "\<exists>rq ua' ra'. w' = w @ [Sent rq] \<and> cdn_enabled (conn self) \<and> truthy (name self)
           \<and> ua' = (if truthy (cdn_uri self) then py_or ua (cdn_agent_acl self) else ua)
           \<and> ra' = (if truthy (cdn_uri self) then py_or ra (cdn_referer_acl self) else ra)
           \<and> self' = read_cdn_uri
                (self\<lparr>cdn_ttl := Some ttl, cdn_agent_acl := ua', cdn_referer_acl := ra'\<rparr>)
                (headers (transport (conn self) w rq))"
proof -
  have g: "truthy (name self)" "cdn_enabled (conn self)"
    using assms by (auto simp: make_public_guards split: if_splits)
  show ?thesis
    using assms g unfolding make_public_unfold [OF g] Let_def
    by (auto split: if_splits)
qed

lemma make_private_self: "make_private self w = (r, self', w') \<Longrightarrow> self' = self"
  by (auto simp: make_private_def requires_name_def make_private_body_def Let_def
      split: if_splits prod.splits)

subsection \<open>The constructor\<close>

lemma Container_init_ok:
  assumes "Container_init cv nm cnt sz w = (Inr c, w')"
  shows "name c = nm \<and> set_name nm = Inr nm \<and> cv = ConnObj (conn c)
         \<and> (if cdn_enabled (conn c) then truthy nm else w' = w)"
proof (cases cv)
  case (ConnObj k)
  have sn: "set_name nm = Inr nm"
    using assms by (auto simp: Container_init_def set_name_def split: option.splits if_splits)
  show ?thesis
  proof (cases "cdn_enabled k")
    case True
    let ?s0 = "\<lparr>name = nm, conn = k, object_count = cnt, size_used = sz, cdn_uri = None,
                 cdn_ttl = None, cdn_agent_acl = None, cdn_referer_acl = None\<rparr>"
    obtain r s1 w1 where f: "fetch_cdn_data ?s0 w = (r, s1, w1)"
      by (cases "fetch_cdn_data ?s0 w") auto
    with assms ConnObj True sn have "r = Inr () \<and> s1 = c \<and> w1 = w'"
      by (auto simp: Container_init_def Let_def split: sum.splits)
    with f fetch_cdn_data_fields [OF f] fetch_cdn_data_named [of ?s0 w "()" s1 w1] True ConnObj sn
    show ?thesis by auto
  next
    case False
    with assms ConnObj sn show ?thesis
      by (auto simp: Container_init_def Let_def)
  qed
qed (use assms in \<open>auto simp: Container_init_def split: sum.splits\<close>)

section \<open>The properties of the specification\<close>

text \<open>
  Claim C1. For every call to \<open>make_public\<close>: if the container's \<open>cdn_uri\<close> is not known
  (None), the method issues a create-style (PUT) CDN request; if \<open>cdn_uri\<close> is known, it
  issues an update-style (POST) CDN request in which any \<open>user_agent_acl\<close> or
  \<open>referer_acl\<close> argument that was not explicitly supplied defaults to the cached
  \<open>cdn_agent_acl\<close> / \<open>cdn_referer_acl\<close>, and ACL headers are included only when the
  resulting value is non-empty.

  The code tests \<open>if self.cdn_uri\<close>, the truth value of the field, where \<open>is_public\<close>
  tests \<open>is not None\<close>: a \<open>cdn_uri\<close> that is the empty string is known and still takes
  the create path. As the code has it, for every call that passes the name guard and the
  CDN-enabled check: exactly one request is sent, to the CDN service, at the path of the
  container's name, with \<open>X-TTL\<close> \<open>str(ttl)\<close> and \<open>X-CDN-Enabled\<close> \<open>True\<close>; it is a POST
  when \<open>cdn_uri\<close> is a non-empty string, with each ACL argument that is None or empty
  replaced by the cached value, and a PUT when \<open>cdn_uri\<close> is None or empty, with the ACL
  arguments as given; an ACL header is present exactly when its resulting value is a
  non-empty string, and then carries it.
\<close>

theorem C1_make_public_request:
  assumes "truthy (name self)" and "cdn_enabled (conn self)"
  shows "\<exists>rq. snd (snd (make_public ttl user_agent_acl referer_acl self w)) = w @ [Sent rq]
          \<and> service rq = CDN \<and> path rq = [name self]
          \<and> hdrs rq ''X-TTL'' = Some (str_int ttl) \<and> hdrs rq ''X-CDN-Enabled'' = Some ''True''
          \<and> (if truthy (cdn_uri self)
              then meth rq = ''POST''
                 \<and> hdrs rq ''X-User-Agent-ACL'' =
                     (if truthy user_agent_acl then user_agent_acl
                      else if truthy (cdn_agent_acl self) then cdn_agent_acl self else None)
                 \<and> hdrs rq ''X-Referrer-ACL'' =
                     (if truthy referer_acl then referer_acl
                      else if truthy (cdn_referer_acl self) then cdn_referer_acl self else None)
              else meth rq = ''PUT''
                 \<and> hdrs rq ''X-User-Agent-ACL'' =
                     (if truthy user_agent_acl then user_agent_acl else None)
                 \<and> hdrs rq ''X-Referrer-ACL'' =
                     (if truthy referer_acl then referer_acl else None))"
  by (simp add: make_public_unfold [OF assms] Let_def acl_header_lookup py_or_def)

text \<open>
  An update of a published container with a cached user-agent ACL and no ACL argument: a
  POST that carries the cached ACL and no referrer ACL.
\<close>

theorem C1_make_public_request_witness:
  "truthy (name (stored (fixed_conn True created) (Some ''pics'')
                   (Some ''http://cdn.example.com/pics'') (Some ''Mozilla'') None))
   \<and> cdn_enabled (conn (stored (fixed_conn True created) (Some ''pics'')
                   (Some ''http://cdn.example.com/pics'') (Some ''Mozilla'') None))
   \<and> (\<exists>rq. snd (snd (make_public 3600 None None
                 (stored (fixed_conn True created) (Some ''pics'')
                    (Some ''http://cdn.example.com/pics'') (Some ''Mozilla'') None) []))
               = [Sent rq]
        \<and> meth rq = ''POST'' \<and> hdrs rq ''X-TTL'' = Some ''3600''
        \<and> hdrs rq ''X-User-Agent-ACL'' = Some ''Mozilla'' \<and> hdrs rq ''X-Referrer-ACL'' = None)"
proof -
  let ?c = "stored (fixed_conn True created) (Some ''pics'')
              (Some ''http://cdn.example.com/pics'') (Some ''Mozilla'') None"
  have h1: "truthy (name ?c)" by (simp add: stored_def truthy_def)
  have h2: "cdn_enabled (conn ?c)" by (simp add: stored_def fixed_conn_def)
  have u: "truthy (cdn_uri ?c)" "cdn_agent_acl ?c = Some ''Mozilla''" "cdn_referer_acl ?c = None"
    by (simp_all add: stored_def truthy_def)
  from C1_make_public_request [OF h1 h2, of 3600 None None "[]"] h1 h2 u
  show ?thesis by (auto simp: str_3600 truthy_def)
qed

text \<open>
  The claim fails where the CDN service names an empty URI. The constructor stores it;
  \<open>cdn_uri\<close> is then not None and \<open>is_public\<close> returns true, and \<open>make_public\<close> sends a
  PUT.
\<close>

theorem C1_known_empty_uri_counterexample:
  "fst (Container_init (ConnObj (fixed_conn True blank_uri)) (Some ''pics'') None None [])
     = Inr (stored (fixed_conn True blank_uri) (Some ''pics'') (Some []) None None)
   \<and> cdn_uri (stored (fixed_conn True blank_uri) (Some ''pics'') (Some []) None None) \<noteq> None
   \<and> fst (is_public (stored (fixed_conn True blank_uri) (Some ''pics'') (Some []) None None) [])
       = Inr True
   \<and> map meth (requests (snd (snd (make_public 3600 None None
        (stored (fixed_conn True blank_uri) (Some ''pics'') (Some []) None None) []))))
       = [''PUT'']"
  by (simp add: Container_init_def set_name_def fetch_cdn_data_def requires_name_def
      fetch_cdn_data_body_def cdn_request_def fixed_conn_def blank_uri_def stored_def truthy_def
      lower_cdn_uri is_public_def make_public_def make_public_body_def Let_def)

text \<open>
  Claim C2. After a call to \<open>make_public(ttl=3600)\<close> that completes without raising,
  \<open>cdn_ttl\<close> equals 3600 and \<open>is_public()\<close> returns true.

  The code takes \<open>cdn_uri\<close> from the \<open>X-CDN-URI\<close> header of the response and leaves it as
  it was when the response has none. As the code has it: after such a call \<open>cdn_ttl\<close> is
  3600, and \<open>is_public()\<close> returns true exactly when the response carried an
  \<open>X-CDN-URI\<close> header (the name compared in lower case) or \<open>cdn_uri\<close> was not None
  before the call; it returns false otherwise.
\<close>

theorem C2_after_make_public:
  assumes "make_public 3600 ua ra self w = (Inr u, self', w')"
  shows "cdn_ttl self' = Some 3600
       \<and> (\<exists>rq. w' = w @ [Sent rq]
            \<and> is_public self' w' =
                (Inr (''x-cdn-uri'' \<in> set (map (\<lambda>h. lower (fst h))
                                            (headers (transport (conn self) w rq)))
                      \<or> cdn_uri self \<noteq> None), self', w'))"
proof -
  from make_public_success [OF assms] obtain rq ua' ra' where
    w': "w' = w @ [Sent rq]" and en: "cdn_enabled (conn self)" and
    s': "self' = read_cdn_uri
                (self\<lparr>cdn_ttl := Some 3600, cdn_agent_acl := ua', cdn_referer_acl := ra'\<rparr>)
                (headers (transport (conn self) w rq))"
    by blast
  have ttl: "cdn_ttl self' = Some 3600"
    by (simp add: s' read_cdn_uri_fields)
  have c: "conn self' = conn self"
    by (simp add: s' read_cdn_uri_fields)
  have k: "(cdn_uri self' \<noteq> None) =
      (''x-cdn-uri'' \<in> set (map (\<lambda>h. lower (fst h)) (headers (transport (conn self) w rq)))
        \<or> cdn_uri self \<noteq> None)"
    unfolding s' read_cdn_uri_known by simp
  have "is_public self' w' = (Inr (cdn_uri self' \<noteq> None), self', w')"
    by (simp add: is_public_def c en)
  with ttl w' k show ?thesis by simp
qed

text \<open>A first publication whose response names the CDN URI: the container is public.\<close>

theorem C2_after_make_public_witness:
  "make_public 3600 None None (stored (fixed_conn True published) (Some ''pics'') None None None) []
     = (Inr (), stored (fixed_conn True published) (Some ''pics'')
                  (Some ''http://cdn.example.com/pics'') None None \<lparr>cdn_ttl := Some 3600\<rparr>,
        snd (snd (make_public 3600 None None
                    (stored (fixed_conn True published) (Some ''pics'') None None None) [])))
   \<and> cdn_ttl (stored (fixed_conn True published) (Some ''pics'')
                  (Some ''http://cdn.example.com/pics'') None None \<lparr>cdn_ttl := Some 3600\<rparr>)
       = Some 3600
   \<and> fst (is_public (stored (fixed_conn True published) (Some ''pics'')
                  (Some ''http://cdn.example.com/pics'') None None \<lparr>cdn_ttl := Some 3600\<rparr>)
             (snd (snd (make_public 3600 None None
                    (stored (fixed_conn True published) (Some ''pics'') None None None) []))))
       = Inr True"
proof -
  let ?c = "stored (fixed_conn True published) (Some ''pics'') None None None"
  let ?c' = "stored (fixed_conn True published) (Some ''pics'')
                  (Some ''http://cdn.example.com/pics'') None None \<lparr>cdn_ttl := Some 3600\<rparr>"
  let ?w' = "snd (snd (make_public 3600 None None ?c []))"
  have run: "make_public 3600 None None ?c [] = (Inr (), ?c', ?w')"
    by (simp add: make_public_def requires_name_def make_public_body_def cdn_request_def
        fixed_conn_def published_def stored_def truthy_def lower_cdn_uri Let_def)
  from C2_after_make_public [OF run] run show ?thesis
    by (auto simp: fixed_conn_def published_def stored_def lower_cdn_uri)
qed

text \<open>
  The claim fails where the response to the publication has no \<open>X-CDN-URI\<close> header: the
  container built by the constructor has no \<open>cdn_uri\<close>, \<open>make_public\<close> succeeds on a 201,
  and \<open>is_public\<close> returns false.
\<close>

theorem C2_no_uri_header_counterexample:
  "fst (Container_init (ConnObj (fixed_conn True created)) (Some ''pics'') None None [])
     = Inr (stored (fixed_conn True created) (Some ''pics'') None None None)
   \<and> fst (make_public 3600 None None
            (stored (fixed_conn True created) (Some ''pics'') None None None) []) = Inr ()
   \<and> fst (is_public
            (fst (snd (make_public 3600 None None
               (stored (fixed_conn True created) (Some ''pics'') None None None) [])))
            (snd (snd (make_public 3600 None None
               (stored (fixed_conn True created) (Some ''pics'') None None None) [])))) = Inr False"
  by (simp add: Container_init_def set_name_def fetch_cdn_data_def requires_name_def
      fetch_cdn_data_body_def cdn_request_def fixed_conn_def created_def stored_def truthy_def
      is_public_def make_public_def make_public_body_def Let_def)

text \<open>
  Claim C3. For every container whose connection has \<open>cdn_enabled\<close> false, each of
  \<open>make_public\<close>, \<open>make_private\<close> and \<open>is_public\<close> raises the CDN-not-enabled error and
  issues no CDN or storage request.

  \<open>make_public\<close> and \<open>make_private\<close> are decorated with \<open>requires_name\<close>, which runs
  first. As the code has it, on a connection with CDN disabled: \<open>is_public\<close> raises
  CDN-not-enabled; \<open>make_public\<close> and \<open>make_private\<close> raise CDN-not-enabled on a container
  whose name is set and not empty, and the invalid-container-name error otherwise; none of
  the three sends a request or changes the container.
\<close>

theorem C3_cdn_disabled:
  assumes "\<not> cdn_enabled (conn self)"
  shows "make_public ttl ua ra self w =
           (Inl (if truthy (name self) then CDNNotEnabled else InvalidContainerName (name self)),
            self, w)
       \<and> make_private self w =
           (Inl (if truthy (name self) then CDNNotEnabled else InvalidContainerName (name self)),
            self, w)
       \<and> is_public self w = (Inl CDNNotEnabled, self, w)"
  using assms
  by (simp add: make_public_def make_private_def requires_name_def make_public_body_def
      make_private_body_def is_public_def)

theorem C3_cdn_disabled_witness:
  "\<not> cdn_enabled (conn (stored (fixed_conn False created) (Some ''pics'') None None None))
   \<and> fst (make_public 3600 None None
            (stored (fixed_conn False created) (Some ''pics'') None None None) [])
       = Inl CDNNotEnabled
   \<and> snd (snd (make_public 3600 None None
            (stored (fixed_conn False created) (Some ''pics'') None None None) [])) = []
   \<and> fst (make_private (stored (fixed_conn False created) (Some ''pics'') None None None) [])
       = Inl CDNNotEnabled
   \<and> snd (snd (make_private (stored (fixed_conn False created) (Some ''pics'') None None None) []))
       = []
   \<and> fst (is_public (stored (fixed_conn False created) (Some ''pics'') None None None) [])
       = Inl CDNNotEnabled
   \<and> snd (snd (is_public (stored (fixed_conn False created) (Some ''pics'') None None None) []))
       = []"
proof -
  let ?c = "stored (fixed_conn False created) (Some ''pics'') None None None"
  have h: "\<not> cdn_enabled (conn ?c)" by (simp add: stored_def fixed_conn_def)
  have n: "truthy (name ?c)" by (simp add: stored_def truthy_def)
  from C3_cdn_disabled [OF h, of 3600 None None "[]"] h n show ?thesis by simp
qed

text \<open>
  The claim fails on a container without a name. On a connection with CDN disabled the
  constructor accepts the empty name; \<open>make_public\<close> and \<open>make_private\<close> then raise the
  invalid-container-name error, not CDN-not-enabled.
\<close>

theorem C3_unnamed_container_counterexample:
  "Container_init (ConnObj (fixed_conn False created)) (Some []) None None []
     = (Inr (stored (fixed_conn False created) (Some []) None None None), [])
   \<and> \<not> cdn_enabled (conn (stored (fixed_conn False created) (Some []) None None None))
   \<and> fst (make_public 3600 None None
            (stored (fixed_conn False created) (Some []) None None None) [])
       = Inl (InvalidContainerName (Some []))
   \<and> fst (make_public 3600 None None
            (stored (fixed_conn False created) (Some []) None None None) [])
       \<noteq> Inl CDNNotEnabled
   \<and> fst (make_private (stored (fixed_conn False created) (Some []) None None None) [])
       = Inl (InvalidContainerName (Some []))"
  by (simp add: Container_init_def set_name_def fixed_conn_def stored_def truthy_def
      make_public_def make_private_def requires_name_def)

subsection \<open>Responses outside the 2xx range\<close>









text \<open>
  Claim C5. For every string name containing the separator \<open>/\<close>, constructing a Container
  with that name raises the invalid-container-name error before any HTTP request is issued:
  whatever is passed as connection, count and size, the constructor returns the error and
  the trace of the connection is the one it started from.
\<close>

theorem C5_separator_rejected_before_any_request:
  "CHR ''/'' \<in> set s \<Longrightarrow>
     Container_init connection (Some s) cnt sz w = (Inl (InvalidContainerName (Some s)), w)"
  by (simp add: Container_init_def set_name_def)

theorem C5_separator_rejected_witness:
  "CHR ''/'' \<in> set ''a/b''
   \<and> Container_init (ConnObj (fixed_conn True created)) (Some ''a/b'') None None []
       = (Inl (InvalidContainerName (Some ''a/b'')), [])"
proof -
  have h: "CHR ''/'' \<in> set ''a/b''" by simp
  from C5_separator_rejected_before_any_request
         [OF h, of "ConnObj (fixed_conn True created)" None None "[]"] h
  show ?thesis by simp
qed

text \<open>
  Claim C6. For every successfully constructed Container, the \<open>name\<close> field is never empty
  and never contains a separator character; any construction that would violate this fails
  immediately with a naming error (in particular, construction with an empty-string name
  fails).

  The setter rejects the separator only; an empty name is refused by \<open>requires_name\<close>, on
  the methods it decorates, and the constructor calls one of them (\<open>_fetch_cdn_data\<close>) only
  when the connection has CDN enabled. As the code has it: a constructed Container has the
  name it was given, that name holds no separator, and it is set and not empty when the
  connection has CDN enabled; a name with a separator fails with the naming error before any
  request; the empty name fails with the naming error, before any request, when the
  connection has CDN enabled; and on a connection with CDN disabled the construction with
  the empty name succeeds, whatever the count, the size and the trace so far: it returns the
  Container with the empty name and no CDN data, and sends nothing.
\<close>

theorem C6_constructed_name:
  "(Container_init cv nm cnt sz w = (Inr c, w')
      \<longrightarrow> name c = nm \<and> (\<forall>s. name c = Some s \<longrightarrow> CHR ''/'' \<notin> set s)
          \<and> (cdn_enabled (conn c) \<longrightarrow> truthy (name c)))
   \<and> ((\<exists>s. nm = Some s \<and> CHR ''/'' \<in> set s)
      \<longrightarrow> Container_init cv nm cnt sz w = (Inl (InvalidContainerName nm), w))
   \<and> (cdn_enabled k
      \<longrightarrow> Container_init (ConnObj k) (Some []) cnt sz w
            = (Inl (InvalidContainerName (Some [])), w))
   \<and> (\<not> cdn_enabled k
      \<longrightarrow> Container_init (ConnObj k) (Some []) cnt sz w
            = (Inr \<lparr>name = Some [], conn = k, object_count = cnt, size_used = sz,
                    cdn_uri = None, cdn_ttl = None,
                    cdn_agent_acl = None, cdn_referer_acl = None\<rparr>, w))"
proof (intro conjI impI)
  assume a: "Container_init cv nm cnt sz w = (Inr c, w')"
  from Container_init_ok [OF a] show "name c = nm" by simp
  from Container_init_ok [OF a] show "\<forall>s. name c = Some s \<longrightarrow> CHR ''/'' \<notin> set s"
    by (auto simp: set_name_def split: if_splits)
  assume "cdn_enabled (conn c)"
  with Container_init_ok [OF a] show "truthy (name c)" by simp
next
  assume "\<exists>s. nm = Some s \<and> CHR ''/'' \<in> set s"
  then show "Container_init cv nm cnt sz w = (Inl (InvalidContainerName nm), w)"
    by (auto simp: Container_init_def set_name_def)
next
  assume "cdn_enabled k"
  then show "Container_init (ConnObj k) (Some []) cnt sz w
               = (Inl (InvalidContainerName (Some [])), w)"
    by (simp add: Container_init_def set_name_def fetch_cdn_data_def requires_name_def truthy_def)
next
  assume "\<not> cdn_enabled k"
  then show "Container_init (ConnObj k) (Some []) cnt sz w
               = (Inr \<lparr>name = Some [], conn = k, object_count = cnt, size_used = sz,
                       cdn_uri = None, cdn_ttl = None,
                       cdn_agent_acl = None, cdn_referer_acl = None\<rparr>, w)"
    by (simp add: Container_init_def set_name_def)
qed

text \<open>
  A named Container on a connection with CDN disabled; a name with a separator; the empty
  name with CDN enabled; and the empty name with CDN disabled, with a count, a size and a
  request already in the trace.
\<close>

theorem C6_constructed_name_witness:
  "Container_init (ConnObj (fixed_conn False created)) (Some ''pics'') None None []
     = (Inr (stored (fixed_conn False created) (Some ''pics'') None None None), [])
   \<and> name (stored (fixed_conn False created) (Some ''pics'') None None None) = Some ''pics''
   \<and> CHR ''/'' \<notin> set ''pics''
   \<and> Container_init (ConnObj (fixed_conn False created)) (Some ''a/b'') None None []
       = (Inl (InvalidContainerName (Some ''a/b'')), [])
   \<and> cdn_enabled (fixed_conn True created)
   \<and> Container_init (ConnObj (fixed_conn True created)) (Some []) None None []
       = (Inl (InvalidContainerName (Some [])), [])
   \<and> \<not> cdn_enabled (fixed_conn False created)
   \<and> Container_init (ConnObj (fixed_conn False created)) (Some []) (Some 3) (Some 4096)
        [ReadBody]
       = (Inr (stored (fixed_conn False created) (Some []) None None None
                 \<lparr>object_count := Some 3, size_used := Some 4096\<rparr>), [ReadBody])"
proof -
  have ok: "Container_init (ConnObj (fixed_conn False created)) (Some ''pics'') None None []
     = (Inr (stored (fixed_conn False created) (Some ''pics'') None None None), [])"
    by (simp add: Container_init_def set_name_def fixed_conn_def stored_def)
  have en: "cdn_enabled (fixed_conn True created)" by (simp add: fixed_conn_def)
  have dis: "\<not> cdn_enabled (fixed_conn False created)" by (simp add: fixed_conn_def)
  from C6_constructed_name [of "ConnObj (fixed_conn False created)" "Some ''a/b''" None None "[]"
        "stored (fixed_conn False created) (Some ''pics'') None None None" "[]"
        "fixed_conn True created"]
     C6_constructed_name [of "ConnObj (fixed_conn False created)" "Some ''pics''" None None "[]"
        "stored (fixed_conn False created) (Some ''pics'') None None None" "[]"
        "fixed_conn True created"]
     C6_constructed_name [of "ConnObj (fixed_conn False created)" "Some []" "Some 3" "Some 4096"
        "[ReadBody]"
        "stored (fixed_conn False created) (Some []) None None None
           \<lparr>object_count := Some 3, size_used := Some 4096\<rparr>" "[ReadBody]"
        "fixed_conn False created"]
     ok en dis
  show ?thesis by (simp add: stored_def)
qed

text \<open>
  The claim fails on a connection with CDN disabled: the constructor returns a Container
  whose name is the empty string, and sends nothing.
\<close>

theorem C6_empty_name_counterexample:
  "Container_init (ConnObj (fixed_conn False created)) (Some []) None None []
     = (Inr (stored (fixed_conn False created) (Some []) None None None), [])
   \<and> name (stored (fixed_conn False created) (Some []) None None None) = Some []"
  by (simp add: Container_init_def set_name_def fixed_conn_def stored_def)

subsection \<open>Reading the response body\<close>

lemma unread_from_append: "unread_from n (a @ b) = unread_from (unread_from n a) b"
  by (induction n a rule: unread_from.induct) simp_all

lemma delete_object_drains:
  "drained w \<Longrightarrow> delete_object arg self w = (r, s, w') \<Longrightarrow> drained w'"
  by (auto simp: delete_object_def requires_name_def delete_object_body_def make_request_def
      read_def Let_def drained_def unread_from_append split: if_splits)

lemma list_objects_drains:
  "drained w \<Longrightarrow> list_objects ps self w = (r, s, w') \<Longrightarrow> drained w'"
  by (auto simp: list_objects_def requires_name_def list_objects_body_def make_request_def
      read_def Let_def drained_def unread_from_append split: if_splits)

text \<open>
  Claim C7. Every code path of every request-issuing method fully reads (drains) the
  response body before the method returns or raises, on both success and failure paths; in
  particular \<open>delete_object\<close> reads the body on both its success and its error path, and
  \<open>make_public\<close> and \<open>make_private\<close> drain their responses as well.

  The file's own comment says why: HTTPResponse objects have to have \<open>read()\<close> called on
  them before they can be used again. \<open>delete_object\<close> and \<open>list_objects\<close> read the
  body on both paths (\<open>delete_object_drains\<close>, \<open>list_objects_drains\<close>).
  \<open>make_public\<close> and \<open>make_private\<close> never call \<open>read()\<close>: on a 201 and on a 404
  alike they leave the trace with a response whose body is unread.
\<close>

theorem C7_cdn_methods_leave_body_unread:
  "fst (make_public 3600 None None
          (stored (fixed_conn True published) (Some ''pics'') None None None) []) = Inr ()
   \<and> \<not> drained (snd (snd (make_public 3600 None None
          (stored (fixed_conn True published) (Some ''pics'') None None None) [])))
   \<and> fst (make_public 3600 None None
          (stored (fixed_conn True not_found) (Some ''pics'') None None None) [])
       = Inl (ResponseError 404 ''Not Found'')
   \<and> \<not> drained (snd (snd (make_public 3600 None None
          (stored (fixed_conn True not_found) (Some ''pics'') None None None) [])))
   \<and> fst (make_private
          (stored (fixed_conn True created) (Some ''pics'') None None None) []) = Inr ()
   \<and> \<not> drained (snd (snd (make_private
          (stored (fixed_conn True created) (Some ''pics'') None None None) [])))
   \<and> fst (make_private
          (stored (fixed_conn True not_found) (Some ''pics'') None None None) [])
       = Inl (ResponseError 404 ''Not Found'')
   \<and> \<not> drained (snd (snd (make_private
          (stored (fixed_conn True not_found) (Some ''pics'') None None None) [])))"
  by (simp add: make_public_def make_private_def requires_name_def make_public_body_def
      make_private_body_def cdn_request_def fixed_conn_def published_def created_def not_found_def
      stored_def truthy_def drained_def Let_def)

text \<open>
  Claim C8. After a call to \<open>make_private\<close> that completes without raising, the cached
  \<open>cdn_uri\<close> and \<open>cdn_ttl\<close> are what they were before the call.
\<close>

theorem C8_make_private_keeps_uri_and_ttl:
  "make_private self w = (Inr u, self', w') \<Longrightarrow>
     cdn_uri self' = cdn_uri self \<and> cdn_ttl self' = cdn_ttl self"
  by (auto dest: make_private_self)

theorem C8_make_private_witness:
  "make_private
     (stored (fixed_conn True created) (Some ''pics'') (Some ''http://cdn.example.com/pics'')
        None None \<lparr>cdn_ttl := Some 3600\<rparr>) []
     = (Inr (),
        stored (fixed_conn True created) (Some ''pics'') (Some ''http://cdn.example.com/pics'')
          None None \<lparr>cdn_ttl := Some 3600\<rparr>,
        snd (snd (make_private
          (stored (fixed_conn True created) (Some ''pics'') (Some ''http://cdn.example.com/pics'')
             None None \<lparr>cdn_ttl := Some 3600\<rparr>) [])))
   \<and> cdn_uri (stored (fixed_conn True created) (Some ''pics'')
        (Some ''http://cdn.example.com/pics'') None None \<lparr>cdn_ttl := Some 3600\<rparr>)
       = Some ''http://cdn.example.com/pics''
   \<and> cdn_ttl (stored (fixed_conn True created) (Some ''pics'')
        (Some ''http://cdn.example.com/pics'') None None \<lparr>cdn_ttl := Some 3600\<rparr>)
       = Some 3600"
proof -
  let ?c = "stored (fixed_conn True created) (Some ''pics'') (Some ''http://cdn.example.com/pics'')
              None None \<lparr>cdn_ttl := Some 3600\<rparr>"
  have run: "make_private ?c [] = (Inr (), ?c, snd (snd (make_private ?c [])))"
    by (simp add: make_private_def requires_name_def make_private_body_def cdn_request_def
        fixed_conn_def created_def stored_def truthy_def Let_def)
  from C8_make_private_keeps_uri_and_ttl [OF run] run show ?thesis by (simp add: stored_def)
qed

subsection \<open>ContainerResults\<close>

lemma Container_init_ListVal:
  "Container_init (ListVal xs) k cnt sz w =
     (case set_name k of Inl e \<Rightarrow> (Inl e, w) | Inr n \<Rightarrow> (Inl (AttributeError ''cdn_enabled''), w))"
  by (simp add: Container_init_def split: sum.splits)

lemma construct_each_ListVal:
  "construct_each (ListVal xs) ks w = (Inr cs, w') \<Longrightarrow> ks = [] \<and> cs = [] \<and> w' = w"
  by (cases ks) (auto simp: Container_init_ListVal split: sum.splits)

lemma results_getslice_returns_nothing:
  "results_getslice self i j w = (Inr cs, w') \<Longrightarrow>
     py_slice (containers self) i j = [] \<and> cs = [] \<and> w' = w"
  by (auto simp: results_getslice_def dest: construct_each_ListVal)

lemma results_getitem_name:
  "results_getitem self key w = (Inr c, w') \<Longrightarrow>
     py_index (containers self) key = Inr (name c) \<and> results_conn self = ConnObj (conn c)"
  by (auto simp: results_getitem_def split: sum.splits dest: Container_init_ok)

text \<open>
  Claim C9. For every ContainerResults instance and every valid slice range, slice access
  returns one Container per name in that contiguous sub-range, and each such Container is
  constructed using the underlying name sequence itself as the connection argument rather
  than the stored connection.

  \<open>__getslice__\<close> does pass the list of names as connection, and for that reason returns no
  Container: the constructor reads \<open>connection.cdn_enabled\<close>, which a list does not have.
  A slice access returns only when the slice is empty
  (\<open>results_getslice_returns_nothing\<close>); \<open>__getitem__\<close>, which passes the stored
  connection, returns the Container of the name at the index (\<open>results_getitem_name\<close>).
  On three names, the slice from 0 to 2 holds two names, the slice access raises
  AttributeError, and the index access at 0 returns the Container.
\<close>

theorem C9_slice_raises_attribute_error:
  "py_slice [Some ''pics'', Some ''docs'', Some ''logs''] 0 2 = [Some ''pics'', Some ''docs'']
   \<and> results_getslice
       \<lparr>containers = [Some ''pics'', Some ''docs'', Some ''logs''],
        results_conn = ConnObj (fixed_conn False created)\<rparr> 0 2 []
       = (Inl (AttributeError ''cdn_enabled''), [])
   \<and> fst (results_getitem
       \<lparr>containers = [Some ''pics'', Some ''docs'', Some ''logs''],
        results_conn = ConnObj (fixed_conn False created)\<rparr> 0 [])
       = Inr (stored (fixed_conn False created) (Some ''pics'') None None None)"
  by (simp add: results_getslice_def results_getitem_def py_slice_def clamp_index_def py_index_def
      Container_init_def set_name_def fixed_conn_def stored_def Let_def)

text \<open>
  Claim C10. For every call to \<open>make_public\<close> on a container whose \<open>cdn_uri\<close> is already
  known (the update path), passing an empty string (or any falsy value) for
  \<open>user_agent_acl\<close> or \<open>referer_acl\<close> is treated identically to omitting the argument:
  the cached ACL value is substituted, so a previously set non-empty ACL can never be
  cleared or set to empty via \<open>make_public\<close>, and an ACL header is sent only when the
  resulting value is non-empty.

  The update path is the branch \<open>if self.cdn_uri\<close>, taken when the field holds a
  non-empty string; a \<open>cdn_uri\<close> that is the empty string is known (\<open>is_public\<close>
  returns true) and takes the create path, where the arguments are used as given. The
  falsy values of an ACL argument are None and the empty string. As the code has it, for a
  call on a container whose \<open>cdn_uri\<close> is a non-empty string, with any outcome: a falsy
  argument gives the outcome of the call with None in its place; after a call that
  returned, the cached ACL of a falsy argument is the one cached before; a cached ACL that
  was non-empty is non-empty afterwards; and the request that was sent carries for each ACL
  the argument when it is non-empty, else the cached value when that is non-empty, else no
  header.
\<close>

theorem C10_falsy_acl_is_omitted_acl:
  assumes upd: "truthy (cdn_uri self)"
      and call: "make_public ttl ua ra self w = (r, self', w')"
  shows "(\<not> truthy ua \<longrightarrow> make_public ttl None ra self w = (r, self', w'))
       \<and> (\<not> truthy ra \<longrightarrow> make_public ttl ua None self w = (r, self', w'))
       \<and> (\<not> truthy ua \<and> r = Inr () \<longrightarrow> cdn_agent_acl self' = cdn_agent_acl self)
       \<and> (\<not> truthy ra \<and> r = Inr () \<longrightarrow> cdn_referer_acl self' = cdn_referer_acl self)
       \<and> (truthy (cdn_agent_acl self) \<longrightarrow> truthy (cdn_agent_acl self'))
       \<and> (truthy (cdn_referer_acl self) \<longrightarrow> truthy (cdn_referer_acl self'))
       \<and> (\<forall>rq. requests w' = requests w @ [rq] \<longrightarrow>
             hdrs rq ''X-User-Agent-ACL'' =
               (if truthy ua then ua
                else if truthy (cdn_agent_acl self) then cdn_agent_acl self else None)
           \<and> hdrs rq ''X-Referrer-ACL'' =
               (if truthy ra then ra
                else if truthy (cdn_referer_acl self) then cdn_referer_acl self else None))"
proof (cases "truthy (name self) \<and> cdn_enabled (conn self)")
  case False
  then have "make_public ttl ua ra self w = make_public ttl None ra self w"
            "make_public ttl ua ra self w = make_public ttl ua None self w"
            "self' = self" "w' = w"
    using call by (auto simp: make_public_guards split: if_splits)
  then show ?thesis using call by auto
next
  case True
  then have g: "truthy (name self)" "cdn_enabled (conn self)" by simp_all
  have n: "\<not> truthy None" by (simp add: truthy_def)
  have a: "\<not> truthy ua \<Longrightarrow> make_public ttl None ra self w = make_public ttl ua ra self w"
    by (simp add: make_public_unfold [OF g] upd py_or_def n)
  have b: "\<not> truthy ra \<Longrightarrow> make_public ttl ua None self w = make_public ttl ua ra self w"
    by (simp add: make_public_unfold [OF g] upd py_or_def n)
  have 1: "\<not> truthy ua \<longrightarrow> make_public ttl None ra self w = (r, self', w')"
    using call a by simp
  have 2: "\<not> truthy ra \<longrightarrow> make_public ttl ua None self w = (r, self', w')"
    using call b by simp
  have 3: "\<not> truthy ua \<and> r = Inr () \<longrightarrow> cdn_agent_acl self' = cdn_agent_acl self"
    using call unfolding make_public_unfold [OF g] Let_def
    by (auto simp: upd py_or_def read_cdn_uri_fields split: if_splits)
  have 4: "\<not> truthy ra \<and> r = Inr () \<longrightarrow> cdn_referer_acl self' = cdn_referer_acl self"
    using call unfolding make_public_unfold [OF g] Let_def
    by (auto simp: upd py_or_def read_cdn_uri_fields split: if_splits)
  have 5: "truthy (cdn_agent_acl self) \<longrightarrow> truthy (cdn_agent_acl self')"
    using call unfolding make_public_unfold [OF g] Let_def
    by (auto simp: upd py_or_def read_cdn_uri_fields split: if_splits)
  have 6: "truthy (cdn_referer_acl self) \<longrightarrow> truthy (cdn_referer_acl self')"
    using call unfolding make_public_unfold [OF g] Let_def
    by (auto simp: upd py_or_def read_cdn_uri_fields split: if_splits)
  have 7: "\<forall>rq. requests w' = requests w @ [rq] \<longrightarrow>
             hdrs rq ''X-User-Agent-ACL'' =
               (if truthy ua then ua
                else if truthy (cdn_agent_acl self) then cdn_agent_acl self else None)
           \<and> hdrs rq ''X-Referrer-ACL'' =
               (if truthy ra then ra
                else if truthy (cdn_referer_acl self) then cdn_referer_acl self else None)"
    using call unfolding make_public_unfold [OF g] Let_def
    by (auto simp: upd py_or_def requests_append acl_header_lookup split: if_splits)
  from 1 2 3 4 5 6 7 show ?thesis by (intro conjI)
qed

text \<open>
  An update with both ACL arguments empty, on a container with both ACLs cached: the
  request carries the cached ACLs, and the outcome is that of the call with None.
\<close>

theorem C10_falsy_acl_witness:
  "truthy (cdn_uri (stored (fixed_conn True created) (Some ''pics'')
             (Some ''http://cdn.example.com/pics'') (Some ''Mozilla'') (Some ''example.com'')))
   \<and> \<not> truthy (Some [])
   \<and> make_public 3600 (Some []) (Some [])
        (stored (fixed_conn True created) (Some ''pics'')
           (Some ''http://cdn.example.com/pics'') (Some ''Mozilla'') (Some ''example.com'')) []
      = (Inr (),
         stored (fixed_conn True created) (Some ''pics'')
           (Some ''http://cdn.example.com/pics'') (Some ''Mozilla'') (Some ''example.com'')
           \<lparr>cdn_ttl := Some 3600\<rparr>,
         snd (snd (make_public 3600 (Some []) (Some [])
           (stored (fixed_conn True created) (Some ''pics'')
             (Some ''http://cdn.example.com/pics'') (Some ''Mozilla'') (Some ''example.com'')) [])))
   \<and> make_public 3600 None (Some [])
        (stored (fixed_conn True created) (Some ''pics'')
           (Some ''http://cdn.example.com/pics'') (Some ''Mozilla'') (Some ''example.com'')) []
      = make_public 3600 (Some []) (Some [])
        (stored (fixed_conn True created) (Some ''pics'')
           (Some ''http://cdn.example.com/pics'') (Some ''Mozilla'') (Some ''example.com'')) []
   \<and> make_public 3600 (Some []) None
        (stored (fixed_conn True created) (Some ''pics'')
           (Some ''http://cdn.example.com/pics'') (Some ''Mozilla'') (Some ''example.com'')) []
      = make_public 3600 (Some []) (Some [])
        (stored (fixed_conn True created) (Some ''pics'')
           (Some ''http://cdn.example.com/pics'') (Some ''Mozilla'') (Some ''example.com'')) []
   \<and> (\<exists>rq. requests (snd (snd (make_public 3600 (Some []) (Some [])
           (stored (fixed_conn True created) (Some ''pics'')
             (Some ''http://cdn.example.com/pics'') (Some ''Mozilla'') (Some ''example.com'')) [])))
            = [rq]
         \<and> hdrs rq ''X-User-Agent-ACL'' = Some ''Mozilla''
         \<and> hdrs rq ''X-Referrer-ACL'' = Some ''example.com'')"
proof -
  let ?c = "stored (fixed_conn True created) (Some ''pics'')
             (Some ''http://cdn.example.com/pics'') (Some ''Mozilla'') (Some ''example.com'')"
  let ?R = "make_public 3600 (Some []) (Some []) ?c []"
  have u: "truthy (cdn_uri ?c)" by (simp add: stored_def truthy_def)
  have e: "\<not> truthy (Some [])" by (simp add: truthy_def)
  have run: "?R = (Inr (), ?c\<lparr>cdn_ttl := Some 3600\<rparr>, snd (snd ?R))"
    by (simp add: make_public_def requires_name_def make_public_body_def cdn_request_def
        fixed_conn_def created_def stored_def truthy_def py_or_def Let_def)
  have q: "requests (snd (snd ?R)) = requests [] @ [hd (requests (snd (snd ?R)))]"
    by (simp add: make_public_def requires_name_def make_public_body_def cdn_request_def
        fixed_conn_def created_def stored_def truthy_def py_or_def Let_def)
  have f: "truthy (cdn_agent_acl ?c)" "truthy (cdn_referer_acl ?c)"
          "cdn_agent_acl ?c = Some ''Mozilla''" "cdn_referer_acl ?c = Some ''example.com''"
    by (simp_all add: stored_def truthy_def)
  from C10_falsy_acl_is_omitted_acl [OF u run] e q f run u
  show ?thesis by auto
qed

text \<open>
  The claim fails where \<open>cdn_uri\<close> is known and empty. The constructor stores the empty
  URI and the user-agent ACL that the CDN service names; \<open>is_public\<close> returns true. A
  call of \<open>make_public\<close> with the empty string as \<open>user_agent_acl\<close> then sends a PUT
  without the ACL header and leaves the empty string as cached ACL, where the call without
  the argument leaves None: the cached ACL is not substituted, the non-empty ACL is
  cleared, and the two calls differ.
\<close>

theorem C10_known_empty_uri_counterexample:
  "fst (Container_init (ConnObj (fixed_conn True blank_uri_acl)) (Some ''pics'') None None [])
     = Inr (stored (fixed_conn True blank_uri_acl) (Some ''pics'') (Some [])
              (Some ''Mozilla'') None)
   \<and> cdn_uri (stored (fixed_conn True blank_uri_acl) (Some ''pics'') (Some [])
              (Some ''Mozilla'') None) \<noteq> None
   \<and> fst (is_public (stored (fixed_conn True blank_uri_acl) (Some ''pics'') (Some [])
              (Some ''Mozilla'') None) []) = Inr True
   \<and> cdn_agent_acl (stored (fixed_conn True blank_uri_acl) (Some ''pics'') (Some [])
              (Some ''Mozilla'') None) = Some ''Mozilla''
   \<and> fst (make_public 3600 (Some []) None
            (stored (fixed_conn True blank_uri_acl) (Some ''pics'') (Some [])
               (Some ''Mozilla'') None) []) = Inr ()
   \<and> map meth (requests (snd (snd (make_public 3600 (Some []) None
            (stored (fixed_conn True blank_uri_acl) (Some ''pics'') (Some [])
               (Some ''Mozilla'') None) [])))) = [''PUT'']
   \<and> map (\<lambda>rq. hdrs rq ''X-User-Agent-ACL'') (requests (snd (snd (make_public 3600 (Some []) None
            (stored (fixed_conn True blank_uri_acl) (Some ''pics'') (Some [])
               (Some ''Mozilla'') None) [])))) = [None]
   \<and> cdn_agent_acl (fst (snd (make_public 3600 (Some []) None
            (stored (fixed_conn True blank_uri_acl) (Some ''pics'') (Some [])
               (Some ''Mozilla'') None) []))) = Some []
   \<and> cdn_agent_acl (fst (snd (make_public 3600 None None
            (stored (fixed_conn True blank_uri_acl) (Some ''pics'') (Some [])
               (Some ''Mozilla'') None) []))) = None"
  by (simp add: Container_init_def set_name_def fetch_cdn_data_def requires_name_def
      fetch_cdn_data_body_def cdn_request_def fixed_conn_def blank_uri_acl_def stored_def
      truthy_def lower_cdn_uri lower_user_agent_acl is_public_def make_public_def
      make_public_body_def set_if_truthy_def read_cdn_uri_fields Let_def)

end
